theory Spec2Isabelle
  imports Main "HOL-Library.AList" "HOL-Library.Sublist" "HOL-Library.Char_ord"
    "HOL-Library.List_Lexorder"
begin

section \<open>JavaScript strings and plain objects\<close>

text \<open>
  Strings are character lists. A plain JavaScript object used as a dictionary is an
  association list in insertion order: \<open>obj[k] = v\<close> overwrites in place or appends,
  \<open>delete obj[k]\<close> removes the key, \<open>Object.keys\<close> lists the keys in insertion order.
  Property lookup of an own key is \<open>map_of\<close>. A key that names a member inherited from
  \<open>Object.prototype\<close> and is no own key yields that member, which is truthy; this is
  modelled where a handler's answer turns on it (the room code of \<open>get-files\<close> and the
  new path of \<open>rename-item\<close>) and is outside the model elsewhere, as are integer-like
  keys, which JavaScript enumerates first.
\<close>

type_synonym 'v obj = "(string \<times> 'v) list"

definition obj_get :: "'v obj \<Rightarrow> string \<Rightarrow> 'v option" where
  "obj_get ob k = map_of ob k"

definition obj_set :: "'v obj \<Rightarrow> string \<Rightarrow> 'v \<Rightarrow> 'v obj" where
  "obj_set ob k v = AList.update k v ob"

definition obj_delete :: "'v obj \<Rightarrow> string \<Rightarrow> 'v obj" where
  "obj_delete ob k = AList.delete k ob"

definition obj_keys :: "'v obj \<Rightarrow> string list" where
  "obj_keys ob = map fst ob"

text \<open>The names of the members every plain object inherits from \<open>Object.prototype\<close>.\<close>

definition object_prototype_members :: "string list" where
  "object_prototype_members =
     [''constructor'', ''__proto__'', ''hasOwnProperty'', ''isPrototypeOf'',
      ''propertyIsEnumerable'', ''toLocaleString'', ''toString'', ''valueOf'',
      ''__defineGetter__'', ''__defineSetter__'', ''__lookupGetter__'', ''__lookupSetter__'']"

text \<open>\<open>s.split(c)\<close> for a one-character separator: never the empty list.\<close>

fun js_split :: "char \<Rightarrow> string \<Rightarrow> string list" where
  "js_split c [] = [Nil]"
| "js_split c (x # xs) =
     (if x = c then [] # js_split c xs
      else (case js_split c xs of [] \<Rightarrow> [x # Nil] | w # ws \<Rightarrow> (x # w) # ws))"

text \<open>\<open>s.split('.').pop() || 'txt'\<close>, the extension derivation of the editor handlers.\<close>

definition split_pop_ext :: "string \<Rightarrow> string" where
  "split_pop_ext s = (let e = last (js_split CHR ''.'' s) in if e = [] then ''txt'' else e)"

text \<open>\<open>key.startsWith(p + '/')\<close>.\<close>

definition starts_with_dir :: "string \<Rightarrow> string \<Rightarrow> bool" where
  "starts_with_dir p key = prefix (p @ ''/'') key"

text \<open>The leaf of a path: what follows the last \<open>/\<close>.\<close>

definition leaf_name :: "string \<Rightarrow> string" where
  "leaf_name p = last (js_split CHR ''/'' p)"


text \<open>
  Node's \<open>path.extname\<close> on a relative POSIX path without trailing slash: the leaf from
  its last dot on, and empty when the leaf has no dot, starts with its only dot, or is
  \<open>..\<close>.
\<close>

definition path_extname :: "string \<Rightarrow> string" where
  "path_extname p =
     (let b = leaf_name p;
          suf = rev (takeWhile (\<lambda>c. c \<noteq> CHR ''.'') (rev b));
          pre = take (length b - length suf - 1) b
      in if CHR ''.'' \<notin> set b \<or> pre = [] \<or> b = ''..'' then [] else CHR ''.'' # suf)"

text \<open>
  \<open>path.join(workDir, rel)\<close> and \<open>path.dirname\<close> on paths whose components are
  neither empty nor \<open>.\<close> nor \<open>..\<close>, where joining is concatenation.
\<close>

definition path_join :: "string \<Rightarrow> string \<Rightarrow> string" where
  "path_join a b = (if b = [] then a else a @ ''/'' @ b)"

definition path_dirname :: "string \<Rightarrow> string" where
  "path_dirname p =
     (if CHR ''/'' \<notin> set p then ''.''
      else (let d = rev (drop 1 (dropWhile (\<lambda>c. c \<noteq> CHR ''/'') (rev p)))
            in if d = [] then ''/'' else d))"

section \<open>The file system\<close>

text \<open>
  The part of the file system the server touches, as a dictionary from absolute path to
  entry. A call of \<open>fs\<close> that throws returns \<open>None\<close>.
\<close>

datatype dnode = DFile string | DDir

type_synonym filesystem = "dnode obj"

definition existsSync :: "filesystem \<Rightarrow> string \<Rightarrow> bool" where
  "existsSync fs p = (obj_get fs p \<noteq> None)"

definition is_dfile :: "dnode option \<Rightarrow> bool" where
  "is_dfile e = (case e of Some (DFile c) \<Rightarrow> True | _ \<Rightarrow> False)"

text \<open>The path itself and every ancestor directory of it, outermost first.\<close>

definition dir_chain :: "string \<Rightarrow> string list" where
  "dir_chain p = map (\<lambda>i. take i p) [i \<leftarrow> [1..<length p]. p ! i = CHR ''/''] @ [p]"

definition mkdirSync_recursive :: "filesystem \<Rightarrow> string \<Rightarrow> filesystem option" where
  "mkdirSync_recursive fs p =
     (if list_ex (\<lambda>d. is_dfile (obj_get fs d)) (dir_chain p) then None
      else Some (fold (\<lambda>d f. if existsSync f d then f else obj_set f d DDir) (dir_chain p) fs))"

definition readFileSync :: "filesystem \<Rightarrow> string \<Rightarrow> string option" where
  "readFileSync fs p = (case obj_get fs p of Some (DFile c) \<Rightarrow> Some c | _ \<Rightarrow> None)"

definition writeFileSync :: "filesystem \<Rightarrow> string \<Rightarrow> string \<Rightarrow> filesystem option" where
  "writeFileSync fs p c =
     (case obj_get fs p of
        Some DDir \<Rightarrow> None
      | _ \<Rightarrow> (case obj_get fs (path_dirname p) of
                Some DDir \<Rightarrow> Some (obj_set fs p (DFile c))
              | _ \<Rightarrow> None))"

definition unlinkSync :: "filesystem \<Rightarrow> string \<Rightarrow> filesystem option" where
  "unlinkSync fs p =
     (case obj_get fs p of Some (DFile c) \<Rightarrow> Some (obj_delete fs p) | _ \<Rightarrow> None)"

text \<open>\<open>fs.rmSync(p, {recursive: true, force: true})\<close>: the entry and all below it.\<close>

definition rmSync_recursive :: "filesystem \<Rightarrow> string \<Rightarrow> filesystem" where
  "rmSync_recursive fs p = filter (\<lambda>(k, e). \<not> (k = p \<or> starts_with_dir p k)) fs"

text \<open>
  \<open>fs.renameSync(old, new)\<close>: the entry and all below it move. It throws when the
  source is missing, the target's parent is no directory, the target lies inside the
  source, a file would replace a directory or a directory a file, or a directory would
  replace a directory that is not empty.
\<close>

definition renameSync :: "filesystem \<Rightarrow> string \<Rightarrow> string \<Rightarrow> filesystem option" where
  "renameSync fs old new =
     (case obj_get fs old of
        None \<Rightarrow> None
      | Some src \<Rightarrow>
          if obj_get fs (path_dirname new) \<noteq> Some DDir then None
          else if old = new then Some fs
          else if starts_with_dir old new then None
          else if (case (src, obj_get fs new) of
                     (DFile c, Some DDir) \<Rightarrow> True
                   | (DDir, Some (DFile c)) \<Rightarrow> True
                   | (DDir, Some DDir) \<Rightarrow> list_ex (\<lambda>k. starts_with_dir new k) (obj_keys fs)
                   | _ \<Rightarrow> False) then None
          else Some (map (\<lambda>(k, e). if k = old \<or> starts_with_dir old k
                                   then (new @ drop (length old) k, e) else (k, e))
                      (filter (\<lambda>(k, e). k \<noteq> new) fs)))"

section \<open>Rooms, file trees and events\<close>

text \<open>
  A node of a room's file tree: a file with content, extension and view hint, or a folder
  with its view hint. The tree is the flat object \<open>roomFiles[roomCode]\<close> from path to
  node.
\<close>

datatype node = File_node string string bool | Folder_node bool

type_synonym tree = "node obj"

definition is_file_node :: "node \<Rightarrow> bool" where
  "is_file_node nd = (case nd of File_node c e x \<Rightarrow> True | Folder_node x \<Rightarrow> False)"

definition node_type :: "node \<Rightarrow> string" where
  "node_type nd = (case nd of File_node c e x \<Rightarrow> ''file'' | Folder_node x \<Rightarrow> ''folder'')"

text \<open>
  \<open>Object.keys(files).filter(key => files[key].type === 'file')\<close>, the file paths of a
  tree in key order.
\<close>

definition file_keys :: "tree \<Rightarrow> string list" where
  "file_keys files =
     filter (\<lambda>k. case obj_get files k of Some nd \<Rightarrow> is_file_node nd | None \<Rightarrow> False)
       (obj_keys files)"

text \<open>The keys of a folder and of everything below it.\<close>

definition subtree_keys :: "tree \<Rightarrow> string \<Rightarrow> string list" where
  "subtree_keys files p = filter (\<lambda>k. k = p \<or> starts_with_dir p k) (obj_keys files)"

text \<open>
  An emission names its audience the way socket.io does: \<open>socket.emit\<close> reaches the one
  socket, \<open>io.to(ch).emit\<close> every socket in the channel \<open>ch\<close>, \<open>socket.to(ch).emit\<close>
  every socket in the channel but the sender.
\<close>

datatype target = To_socket string | To_channel string | To_others string string

datatype payload =
    Terminal_output string
  | File_error string
  | Files_update tree
  | File_synced string string
  | File_created string
  | Folder_created string
  | Item_deleted string string
  | Item_renamed string string string
  | File_content_update string string
  | Active_file_changed string
  | Code_update string string string
  | User_joined string string
  | Room_created string

type_synonym event = "target \<times> payload"

text \<open>Callbacks the server has scheduled: \<open>setTimeout\<close> and \<open>setImmediate\<close>.\<close>

datatype task =
    Clear_token string
  | Write_file string string string
  | Sync_room_files string
  | Respawn string string

text \<open>What the server takes from its platform and libraries.\<close>

record env =
  os_tmpdir :: string
  pty_spawn_ok :: bool
  bcrypt_hash :: "string \<Rightarrow> string"
  bcrypt_compare :: "string \<Rightarrow> string \<Rightarrow> bool"

text \<open>
  The server's state: the fields of the \<open>TerminalManager\<close> (a terminal is present for the
  user ids of the set), the module-level tables, the persisted room collection (what
  \<open>roomModel.findOne\<close> answers for a room code: the stored password hash), the disk, the
  channels each socket has joined with \<open>socket.join\<close>, the properties set on the socket,
  the scheduled callbacks, and a log of the \<open>fs.writeFileSync\<close> calls made (path,
  content, and whether the call returned rather than threw).
\<close>

record state =
  terminals :: "string set"
  sharedWorkingDirectories :: "string \<rightharpoonup> string"
  fileWatchers :: "string set"
  userRooms :: "string \<rightharpoonup> string"
  fileSyncInProgress :: "string set"
  rooms :: "string \<rightharpoonup> string list"
  roomFiles :: "string \<rightharpoonup> tree"
  userActiveFiles :: "string \<rightharpoonup> string"
  userSession :: "string \<rightharpoonup> string \<times> string"
  roomStore :: "string \<rightharpoonup> string"
  disk :: filesystem
  socketChannels :: "string \<Rightarrow> string set"
  socketRoomCode :: "string \<rightharpoonup> string"
  socketUsername :: "string \<rightharpoonup> string"
  pending :: "task list"
  writeLog :: "(string \<times> string \<times> bool) list"

text \<open>
  Who receives an emission: every socket is in the channel named by its own id, and in
  the channels it joined.
\<close>

definition in_channel :: "state \<Rightarrow> string \<Rightarrow> string \<Rightarrow> bool" where
  "in_channel st ch s = (s = ch \<or> ch \<in> socketChannels st s)"

definition receives :: "state \<Rightarrow> string \<Rightarrow> target \<Rightarrow> bool" where
  "receives st s tg =
     (case tg of
        To_socket s' \<Rightarrow> s = s'
      | To_channel ch \<Rightarrow> in_channel st ch s
      | To_others ch sender \<Rightarrow> in_channel st ch s \<and> s \<noteq> sender)"

section \<open>The terminal manager\<close>

definition editor_key :: "string \<Rightarrow> string \<Rightarrow> string" where
  "editor_key roomCode fileName = ''editor-'' @ roomCode @ ''-'' @ fileName"

definition terminal_key :: "string \<Rightarrow> string \<Rightarrow> string" where
  "terminal_key roomCode fileName = ''terminal-'' @ roomCode @ ''-'' @ fileName"

definition terminal_folder_key :: "string \<Rightarrow> string \<Rightarrow> string" where
  "terminal_folder_key roomCode folderPath = ''terminal-folder-'' @ roomCode @ ''-'' @ folderPath"

definition esc :: char where
  "esc = CHR 0x1B"

definition red_banner :: "string \<Rightarrow> string" where
  "red_banner msg = esc # ''[31m'' @ msg @ esc # ''[0m'' @ [CHR 0x0D, CHR 0x0A]"

text \<open>
  The \<open>try\<close> block of \<open>writeFileToWorkingDir\<close> on the disk: the disk as left, the value
  returned (\<open>False\<close> from the \<open>catch\<close>), and the call of \<open>fs.writeFileSync\<close> when
  there was one: path, content, and whether it returned rather than threw.
\<close>

definition write_if_changed ::
  "filesystem \<Rightarrow> string \<Rightarrow> string
     \<Rightarrow> filesystem \<times> bool \<times> (string \<times> string \<times> bool) list" where
  "write_if_changed d filePath content =
     (let fileDir = path_dirname filePath in
      case (if \<not> existsSync d fileDir then mkdirSync_recursive d fileDir else Some d) of
        None \<Rightarrow> (d, False, [])
      | Some d1 \<Rightarrow>
          let shouldWrite =
                (if existsSync d1 filePath
                 then map_option (\<lambda>currentContent. currentContent \<noteq> content)
                        (readFileSync d1 filePath)
                 else Some True)
          in
          case shouldWrite of
            None \<Rightarrow> (d1, False, [])
          | Some False \<Rightarrow> (d1, True, [])
          | Some True \<Rightarrow>
              (case writeFileSync d1 filePath content of
                 None \<Rightarrow> (d1, False, [(filePath, content, False)])
               | Some d2 \<Rightarrow> (d2, True, [(filePath, content, True)])))"

text \<open>
  \<open>writeFileToWorkingDir\<close>: the state after the call and the value returned. The
  \<open>finally\<close> block schedules the removal of the token.
\<close>

definition writeFileToWorkingDir :: "state \<Rightarrow> string \<Rightarrow> string \<Rightarrow> string \<Rightarrow> state \<times> bool" where
  "writeFileToWorkingDir st roomCode fileName content =
     (let syncKey = editor_key roomCode fileName in
      if syncKey \<in> fileSyncInProgress st then (st, True)
      else
        let st1 = st\<lparr>fileSyncInProgress := insert syncKey (fileSyncInProgress st)\<rparr> in
        case sharedWorkingDirectories st1 roomCode of
          None \<Rightarrow> (st1\<lparr>fileSyncInProgress := fileSyncInProgress st1 - {syncKey}\<rparr>, False)
        | Some workDir \<Rightarrow>
            let (d, result, written) =
                  write_if_changed (disk st1) (path_join workDir fileName) content
            in (st1\<lparr>disk := d, writeLog := writeLog st1 @ written,
                    pending := pending st1 @ [Clear_token syncKey]\<rparr>, result))"

definition createFolderInWorkingDir :: "state \<Rightarrow> string \<Rightarrow> string \<Rightarrow> state \<times> bool" where
  "createFolderInWorkingDir st roomCode folderPath =
     (case sharedWorkingDirectories st roomCode of
        None \<Rightarrow> (st, False)
      | Some workDir \<Rightarrow>
          let fullPath = path_join workDir folderPath in
          if \<not> existsSync (disk st) fullPath then
            (case mkdirSync_recursive (disk st) fullPath of
               None \<Rightarrow> (st, False)
             | Some d \<Rightarrow> (st\<lparr>disk := d\<rparr>, True))
          else (st, True))"

text \<open>\<open>syncRoomFilesToWorkingDir\<close>: every node of the tree, in key order.\<close>

definition syncRoomFilesToWorkingDir :: "state \<Rightarrow> string \<Rightarrow> state" where
  "syncRoomFilesToWorkingDir st roomCode =
     (case (sharedWorkingDirectories st roomCode, roomFiles st roomCode) of
        (Some workDir, Some files) \<Rightarrow>
          fold (\<lambda>itemPath s.
                  case obj_get files itemPath of
                    Some (File_node c e x) \<Rightarrow> fst (writeFileToWorkingDir s roomCode itemPath c)
                  | Some (Folder_node x) \<Rightarrow> fst (createFolderInWorkingDir s roomCode itemPath)
                  | None \<Rightarrow> s)
            (obj_keys files) st
      | _ \<Rightarrow> st)"

text \<open>
  \<open>syncFileFromTerminalToRoom\<close>, called by the watcher for a file added or changed in the
  working directory.
\<close>

definition syncFileFromTerminalToRoom ::
  "state \<Rightarrow> string \<Rightarrow> string \<Rightarrow> string \<Rightarrow> state \<times> event list" where
  "syncFileFromTerminalToRoom st roomCode fileName filePath =
     (let syncKey = terminal_key roomCode fileName in
      if syncKey \<in> fileSyncInProgress st then (st, [])
      else
        let st1 = st\<lparr>fileSyncInProgress := insert syncKey (fileSyncInProgress st),
                     pending := pending st @ [Clear_token syncKey]\<rparr> in
        case readFileSync (disk st1) filePath of
          None \<Rightarrow> (st1, [])
        | Some content \<Rightarrow>
            let extension = (let e = drop 1 (path_extname fileName)
                             in if e = [] then ''txt'' else e);
                files = (case roomFiles st1 roomCode of None \<Rightarrow> [] | Some t \<Rightarrow> t);
                currentContent =
                  (case obj_get files fileName of Some (File_node c e x) \<Rightarrow> c | _ \<Rightarrow> [])
            in
            if currentContent \<noteq> content then
              let files' = obj_set files fileName (File_node content extension False) in
              (st1\<lparr>roomFiles := (roomFiles st1)(roomCode \<mapsto> files')\<rparr>,
               [(To_channel roomCode, Files_update files'),
                (To_channel roomCode, File_synced fileName content)])
            else (st1\<lparr>roomFiles := (roomFiles st1)(roomCode \<mapsto> files)\<rparr>, []))"

definition syncFolderFromTerminalToRoom :: "state \<Rightarrow> string \<Rightarrow> string \<Rightarrow> state \<times> event list" where
  "syncFolderFromTerminalToRoom st roomCode folderPath =
     (let syncKey = terminal_folder_key roomCode folderPath in
      if syncKey \<in> fileSyncInProgress st then (st, [])
      else
        let st1 = st\<lparr>fileSyncInProgress := insert syncKey (fileSyncInProgress st),
                     pending := pending st @ [Clear_token syncKey]\<rparr>;
            files = (case roomFiles st1 roomCode of None \<Rightarrow> [] | Some t \<Rightarrow> t)
        in
        if obj_get files folderPath = None then
          let files' = obj_set files folderPath (Folder_node False) in
          (st1\<lparr>roomFiles := (roomFiles st1)(roomCode \<mapsto> files')\<rparr>,
           [(To_channel roomCode, Files_update files'),
            (To_channel roomCode, Folder_created folderPath)])
        else (st1\<lparr>roomFiles := (roomFiles st1)(roomCode \<mapsto> files)\<rparr>, []))"

text \<open>
  The loop \<open>rooms[roomCode].forEach\<close> that moves users off a deleted active file: each
  user whose active file satisfies \<open>hit\<close> gets the new one and two private events.
\<close>

fun switch_users ::
  "(string option \<Rightarrow> bool) \<Rightarrow> string \<Rightarrow> string \<Rightarrow> string list \<Rightarrow> (string \<rightharpoonup> string)
     \<Rightarrow> (string \<rightharpoonup> string) \<times> event list" where
  "switch_users hit newActive content [] uaf = (uaf, [])"
| "switch_users hit newActive content (u # us) uaf =
     (if hit (uaf u) then
        (let (uaf', evs) = switch_users hit newActive content us (uaf(u \<mapsto> newActive))
         in (uaf', (To_channel u, File_content_update newActive content)
                   # (To_channel u, Active_file_changed newActive) # evs))
      else switch_users hit newActive content us uaf)"

definition file_content :: "tree \<Rightarrow> string \<Rightarrow> string" where
  "file_content files k = (case obj_get files k of Some (File_node c e x) \<Rightarrow> c | _ \<Rightarrow> [])"

text \<open>
  The handlers below return the state, the events emitted, and whether the call ended in
  an uncaught \<open>TypeError\<close> (reading \<open>rooms[roomCode].forEach\<close> for a room code without a
  member list), which leaves the state as mutated so far.
\<close>

definition removeFileFromRoomFiles :: "state \<Rightarrow> string \<Rightarrow> string \<Rightarrow> state \<times> event list \<times> bool" where
  "removeFileFromRoomFiles st roomCode fileName =
     (case roomFiles st roomCode of
        None \<Rightarrow> (st, [], False)
      | Some files \<Rightarrow>
          if obj_get files fileName = None then (st, [], False)
          else
            let files' = obj_delete files fileName;
                st1 = st\<lparr>roomFiles := (roomFiles st)(roomCode \<mapsto> files')\<rparr>;
                remainingFiles = file_keys files';
                tail_events = [(To_channel roomCode, Files_update files'),
                               (To_channel roomCode, Item_deleted fileName ''file'')]
            in
            case remainingFiles of
              [] \<Rightarrow> (st1, tail_events, False)
            | newActiveFile # rest \<Rightarrow>
                (case rooms st1 roomCode of
                   None \<Rightarrow> (st1, [], True)
                 | Some users \<Rightarrow>
                     let (uaf, evs) = switch_users (\<lambda>a. a = Some fileName) newActiveFile
                                        (file_content files' newActiveFile) users
                                        (userActiveFiles st1)
                     in (st1\<lparr>userActiveFiles := uaf\<rparr>, evs @ tail_events, False)))"

definition removeFolderFromRoomFiles :: "state \<Rightarrow> string \<Rightarrow> string \<Rightarrow> state \<times> event list" where
  "removeFolderFromRoomFiles st roomCode folderPath =
     (case roomFiles st roomCode of
        None \<Rightarrow> (st, [])
      | Some files \<Rightarrow>
          let keysToDelete = subtree_keys files folderPath;
              files' = fold (\<lambda>key f. obj_delete f key) keysToDelete files
          in (st\<lparr>roomFiles := (roomFiles st)(roomCode \<mapsto> files')\<rparr>,
              [(To_channel roomCode, Files_update files'),
               (To_channel roomCode, Item_deleted folderPath ''folder'')]))"

text \<open>
  \<open>initializeTerminal\<close>. The first terminal of a room creates the shared working
  directory and its watcher; \<open>fs.mkdirSync\<close> is outside the \<open>try\<close> block, so its failure
  leaves the function by an exception (the third component). Spawning the shell is
  inside: on failure the user gets the error banner.
\<close>

definition welcome_message :: "string \<Rightarrow> string" where
  "welcome_message roomCode =
     esc # ''[32m'' @ [CHR 0xE2, CHR 0x9C, CHR 0x93] @ '' Terminal initialized for room: ''
       @ roomCode @ esc # ''[0m'' @ [CHR 0x0D, CHR 0x0A]"

definition initializeTerminal :: "env \<Rightarrow> state \<Rightarrow> string \<Rightarrow> string \<Rightarrow> state \<times> event list \<times> bool" where
  "initializeTerminal ev st roomCode userId =
     (if userId \<in> terminals st then (st, [], False)
      else
        case (case sharedWorkingDirectories st roomCode of
                Some workDir \<Rightarrow> Some st
              | None \<Rightarrow>
                  let workDir = path_join (os_tmpdir ev) (''compiler_'' @ roomCode) in
                  (case (if \<not> existsSync (disk st) workDir
                         then mkdirSync_recursive (disk st) workDir else Some (disk st)) of
                     None \<Rightarrow> None
                   | Some d \<Rightarrow>
                       Some (st\<lparr>disk := d,
                                sharedWorkingDirectories :=
                                  (sharedWorkingDirectories st)(roomCode \<mapsto> workDir),
                                fileWatchers := insert roomCode (fileWatchers st)\<rparr>))) of
          None \<Rightarrow> (st, [], True)
        | Some st1 \<Rightarrow>
            let st2 = st1\<lparr>userRooms := (userRooms st1)(userId \<mapsto> roomCode)\<rparr> in
            if pty_spawn_ok ev then
              (st2\<lparr>terminals := insert userId (terminals st2),
                   pending := pending st2 @ [Sync_room_files roomCode]\<rparr>,
               [(To_channel userId, Terminal_output (welcome_message roomCode))], False)
            else
              (st2, [(To_channel userId,
                      Terminal_output (red_banner ''Error: Failed to initialize terminal''))],
               False))"


definition pty_onExit :: "state \<Rightarrow> string \<Rightarrow> string \<Rightarrow> state \<times> event list" where
  "pty_onExit st roomCode userId =
     (st\<lparr>terminals := terminals st - {userId},
         pending := pending st @ [Respawn roomCode userId]\<rparr>,
      [(To_channel userId,
        Terminal_output ([CHR 0x0D, CHR 0x0A] @ red_banner ''Terminal session ended''))])"


definition executeCommand :: "state \<Rightarrow> string \<Rightarrow> string \<Rightarrow> event list" where
  "executeCommand st userId command =
     (if userId \<notin> terminals st
      then [(To_channel userId, Terminal_output (red_banner ''Error: Terminal not initialized''))]
      else [])"

definition to_lower :: "char \<Rightarrow> char" where
  "to_lower c =
     (let n = (of_char c :: nat) in if 65 \<le> n \<and> n \<le> 90 then char_of (n + 32) else c)"

definition to_upper :: "char \<Rightarrow> char" where
  "to_upper c =
     (let n = (of_char c :: nat) in if 97 \<le> n \<and> n \<le> 122 then char_of (n - 32) else c)"

text \<open>\<open>path.basename(p, suffix)\<close> for a leaf longer than the suffix.\<close>

definition path_basename :: "string \<Rightarrow> string \<Rightarrow> string" where
  "path_basename p suf =
     (let b = leaf_name p
      in if length suf < length b \<and> suffix suf b then take (length b - length suf) b else b)"

definition compile_and_run :: "string \<Rightarrow> string \<Rightarrow> string \<Rightarrow> string" where
  "compile_and_run compiler fileName ext =
     compiler @ '' '' @ fileName @ '' -o '' @ path_basename fileName ext @ '' && ./''
       @ path_basename fileName ext"

definition runCommands :: "string \<Rightarrow> string obj" where
  "runCommands fileName =
     [(''.js'', ''node '' @ fileName),
      (''.py'', ''python '' @ fileName),
      (''.java'', ''javac '' @ fileName @ '' && java '' @ path_basename fileName ''.java''),
      (''.cpp'', compile_and_run ''g++'' fileName ''.cpp''),
      (''.c'', compile_and_run ''gcc'' fileName ''.c''),
      (''.go'', ''go run '' @ fileName),
      (''.rs'', ''rustc '' @ fileName @ '' && ./'' @ path_basename fileName ''.rs''),
      (''.php'', ''php '' @ fileName),
      (''.rb'', ''ruby '' @ fileName),
      (''.sh'', ''bash '' @ fileName),
      (''.ps1'', ''powershell '' @ fileName)]"

definition runFile :: "state \<Rightarrow> string \<Rightarrow> string \<Rightarrow> event list" where
  "runFile st userId fileName =
     (case (case userRooms st userId of
              None \<Rightarrow> None | Some roomCode \<Rightarrow> sharedWorkingDirectories st roomCode) of
        None \<Rightarrow>
          [(To_channel userId, Terminal_output (red_banner ''Error: Working directory not found''))]
      | Some workDir \<Rightarrow>
          let ext = map to_lower (path_extname fileName) in
          (case obj_get (runCommands fileName) ext of
             Some command \<Rightarrow> executeCommand st userId command
           | None \<Rightarrow>
               [(To_channel userId,
                 Terminal_output (red_banner (''Unsupported file type: '' @ ext)))]))"

section \<open>The socket handlers\<close>

definition getDefaultFiles :: tree where
  "getDefaultFiles = [(''main.js'', File_node ''// start typing...'' ''js'' False)]"

datatype reply = Join_failed string | Join_ok_already | Join_ok string tree "string option"

datatype create_reply = Create_failed string | Create_ok string

text \<open>
  \<open>create-room\<close>. The argument \<open>rnd\<close> is the string \<open>Math.random().toString(36)\<close>, of
  which the handler takes up to six characters from the third on, in upper case. Saving
  the room throws for the empty code (the field is required) and for a code already
  persisted (the index is unique); an exception inside the \<open>try\<close> block ends in the
  failure reply. The \<open>await\<close>s are taken as one step with the rest.
\<close>

definition create_room ::
  "env \<Rightarrow> state \<Rightarrow> string \<Rightarrow> string \<Rightarrow> string \<Rightarrow> string
     \<Rightarrow> state \<times> create_reply \<times> event list" where
  "create_room ev st sock username password rnd =
     (let roomCode = map to_upper (take 6 (drop 2 rnd));
          hashedPassword = bcrypt_hash ev password
      in
      if roomCode = [] \<or> roomStore st roomCode \<noteq> None
      then (st, Create_failed ''Failed to create room'', [])
      else
        let st1 = st\<lparr>roomStore := (roomStore st)(roomCode \<mapsto> hashedPassword),
                     rooms := (rooms st)(roomCode \<mapsto> [sock]),
                     roomFiles := (roomFiles st)(roomCode \<mapsto> getDefaultFiles),
                     userActiveFiles := (userActiveFiles st)(sock \<mapsto> ''main.js''),
                     socketChannels := (socketChannels st)
                       (sock := insert roomCode (socketChannels st sock)),
                     socketRoomCode := (socketRoomCode st)(sock \<mapsto> roomCode),
                     socketUsername := (socketUsername st)(sock \<mapsto> username)\<rparr>;
            evs1 = [(To_socket sock, Room_created roomCode),
                    (To_socket sock, Files_update getDefaultFiles),
                    (To_socket sock, File_content_update ''main.js''
                                       (file_content getDefaultFiles ''main.js'')),
                    (To_socket sock, Active_file_changed ''main.js'')];
            (st2, evs2, threw) = initializeTerminal ev st1 roomCode sock
        in
        if threw then (st2, Create_failed ''Failed to create room'', evs1 @ evs2)
        else (st2, Create_ok roomCode, evs1 @ evs2))"

text \<open>
  \<open>join-room\<close>. The two \<open>await\<close>s (the lookup of the persisted room and the password
  comparison) are taken as one step with the rest. An exception inside the \<open>try\<close> block
  ends in the server-error reply.
\<close>

definition join_room ::
  "env \<Rightarrow> state \<Rightarrow> string \<Rightarrow> string \<Rightarrow> string \<Rightarrow> string \<Rightarrow> state \<times> reply \<times> event list" where
  "join_room ev st sock username roomCode password =
     (case roomStore st roomCode of
        None \<Rightarrow> (st, Join_failed ''Room not found. Please check the room code.'', [])
      | Some hash \<Rightarrow>
          if \<not> bcrypt_compare ev password hash
          then (st, Join_failed ''Invalid password. Please try again.'', [])
          else
            let st1 = st\<lparr>userSession := (userSession st)(sock \<mapsto> (roomCode, username))\<rparr>;
                st2 = (if rooms st1 roomCode = None
                       then st1\<lparr>rooms := (rooms st1)(roomCode \<mapsto> []),
                                roomFiles := (roomFiles st1)(roomCode \<mapsto> getDefaultFiles)\<rparr>
                       else st1);
                users = (case rooms st2 roomCode of None \<Rightarrow> [] | Some us \<Rightarrow> us)
            in
            if sock \<in> set users then (st2, Join_ok_already, [])
            else
              let st3 = st2\<lparr>rooms := (rooms st2)(roomCode \<mapsto> users @ [sock]),
                           socketChannels := (socketChannels st2)
                             (sock := insert roomCode (socketChannels st2 sock)),
                           socketRoomCode := (socketRoomCode st2)(sock \<mapsto> roomCode),
                           socketUsername := (socketUsername st2)(sock \<mapsto> username)\<rparr>
              in
              case roomFiles st3 roomCode of
                None \<Rightarrow> (st3, Join_failed ''Server error occurred while joining room.'', [])
              | Some files \<Rightarrow>
                  let firstFile = (case file_keys files of [] \<Rightarrow> None | f # fs \<Rightarrow> Some f);
                      st4 = st3\<lparr>userActiveFiles := (userActiveFiles st3)(sock := firstFile)\<rparr>;
                      (st5, evs, threw) = initializeTerminal ev st4 roomCode sock
                  in
                  if threw
                  then (st5, Join_failed ''Server error occurred while joining room.'', evs)
                  else (st5,
                        Join_ok (''Successfully joined room '' @ roomCode) files firstFile,
                        evs @ [(To_others roomCode sock, User_joined username sock)]))"





text \<open>\<open>terminal-init\<close>, \<open>terminal-input\<close>, \<open>execute-command\<close> and \<open>run-file\<close>.\<close>

definition terminal_init :: "env \<Rightarrow> state \<Rightarrow> string \<Rightarrow> string \<Rightarrow> state \<times> event list \<times> bool" where
  "terminal_init ev st sock roomCode = initializeTerminal ev st roomCode sock"

definition run_file :: "state \<Rightarrow> string \<Rightarrow> string \<Rightarrow> string \<Rightarrow> state \<times> event list" where
  "run_file st sock roomCode fileName =
     (case (case roomFiles st roomCode of None \<Rightarrow> None | Some t \<Rightarrow> obj_get t fileName) of
        Some (File_node c e x) \<Rightarrow>
          (let st1 = fst (writeFileToWorkingDir st roomCode fileName c)
           in (st1, runFile st1 sock fileName))
      | _ \<Rightarrow>
          (st, [(To_channel sock,
                 Terminal_output (red_banner (''Error: File '' @ fileName @ '' not found'')))]))"

text \<open>
  \<open>code-change\<close>. A missing or empty \<open>fileName\<close> falls back to the sender's active
  file. The disk write is deferred with \<open>setImmediate\<close>.
\<close>

definition target_file_name :: "state \<Rightarrow> string \<Rightarrow> string option \<Rightarrow> string option" where
  "target_file_name st sock fileName =
     (case fileName of
        Some f \<Rightarrow> if f \<noteq> [] then Some f else userActiveFiles st sock
      | None \<Rightarrow> userActiveFiles st sock)"

definition code_change ::
  "state \<Rightarrow> string \<Rightarrow> string \<Rightarrow> string \<Rightarrow> string option \<Rightarrow> state \<times> event list" where
  "code_change st sock roomCode code fileName =
     (let targetFileName = target_file_name st sock fileName
      in
      case targetFileName of
        None \<Rightarrow> (st, [])
      | Some t \<Rightarrow>
          if t = [] then (st, [])
          else
            (case roomFiles st roomCode of
               None \<Rightarrow> (st, [])
             | Some files \<Rightarrow>
                 (case obj_get files t of
                    Some (File_node c e x) \<Rightarrow>
                      (st\<lparr>roomFiles := (roomFiles st)(roomCode \<mapsto> obj_set files t (File_node code e x)),
                          pending := pending st @ [Write_file roomCode t code]\<rparr>,
                       [(To_others roomCode sock, Code_update code t sock)])
                  | _ \<Rightarrow> (st, []))))"

text \<open>A scheduled callback fires: it leaves the queue and runs.\<close>

definition run_task :: "env \<Rightarrow> state \<Rightarrow> task \<Rightarrow> state \<times> event list" where
  "run_task ev st t =
     (let st0 = st\<lparr>pending := remove1 t (pending st)\<rparr> in
      case t of
        Clear_token k \<Rightarrow> (st0\<lparr>fileSyncInProgress := fileSyncInProgress st0 - {k}\<rparr>, [])
      | Write_file roomCode p c \<Rightarrow> (fst (writeFileToWorkingDir st0 roomCode p c), [])
      | Sync_room_files roomCode \<Rightarrow> (syncRoomFilesToWorkingDir st0 roomCode, [])
      | Respawn roomCode userId \<Rightarrow>
          (let (st1, evs, threw) = initializeTerminal ev st0 roomCode userId in (st1, evs)))"

text \<open>
  \<open>delete-item\<close>. Each item is removed from the working directory inside its own
  \<open>try\<close>: a directory recursively, anything else by \<open>unlink\<close>.
\<close>

definition delete_on_disk :: "filesystem \<Rightarrow> string \<Rightarrow> filesystem" where
  "delete_on_disk d fullPath =
     (case obj_get d fullPath of
        None \<Rightarrow> d
      | Some DDir \<Rightarrow> rmSync_recursive d fullPath
      | Some (DFile c) \<Rightarrow> (case unlinkSync d fullPath of None \<Rightarrow> d | Some d' \<Rightarrow> d'))"

definition file_error :: "string \<Rightarrow> string \<Rightarrow> event" where
  "file_error sock msg = (To_socket sock, File_error msg)"

definition delete_item :: "state \<Rightarrow> string \<Rightarrow> string \<Rightarrow> string \<Rightarrow> state \<times> event list \<times> bool" where
  "delete_item st sock roomCode itemPath =
     (case (case roomFiles st roomCode of None \<Rightarrow> None
            | Some t \<Rightarrow> map_option (Pair t) (obj_get t itemPath)) of
        None \<Rightarrow> (st, [file_error sock ''Item not found''], False)
      | Some (files, nd) \<Rightarrow>
          let itemType = node_type nd in
          if itemType = ''file'' \<and> length (file_keys files) \<le> 1
          then (st, [file_error sock ''Cannot delete the last file''], False)
          else
            let itemsToDelete =
                  (if itemType = ''folder'' then subtree_keys files itemPath else [itemPath]);
                d = (case sharedWorkingDirectories st roomCode of
                       None \<Rightarrow> disk st
                     | Some workDir \<Rightarrow>
                         fold (\<lambda>item d. delete_on_disk d (path_join workDir item))
                           itemsToDelete (disk st));
                files' = fold (\<lambda>item f. obj_delete f item) itemsToDelete files;
                st1 = st\<lparr>disk := d, roomFiles := (roomFiles st)(roomCode \<mapsto> files')\<rparr>;
                tail_events = [(To_channel roomCode, Files_update files'),
                               (To_channel roomCode, Item_deleted itemPath itemType)]
            in
            if itemType = ''file''
               \<or> (case userActiveFiles st1 sock of None \<Rightarrow> False
                   | Some a \<Rightarrow> a \<in> set itemsToDelete)
            then
              (case file_keys files' of
                 [] \<Rightarrow> (st1, tail_events, False)
               | newActiveFile # rest \<Rightarrow>
                   (case rooms st1 roomCode of
                      None \<Rightarrow> (st1, [], True)
                    | Some users \<Rightarrow>
                        let (uaf, evs) =
                              switch_users
                                (\<lambda>a. case a of None \<Rightarrow> False | Some f \<Rightarrow> f \<in> set itemsToDelete)
                                newActiveFile (file_content files' newActiveFile) users
                                (userActiveFiles st1)
                        in (st1\<lparr>userActiveFiles := uaf\<rparr>, evs @ tail_events, False)))
            else (st1, tail_events, False))"

text \<open>
  \<open>rename-item\<close>. The test \<open>roomFiles[roomCode][newPath]\<close> is also truthy for a new
  path that names an inherited member. The loop of the folder branch copies each node of
  the subtree to its new key and lets the users' active files follow; a second loop
  deletes the old keys. The keys are sorted by bytes, which is JavaScript's order by
  UTF-16 code unit on ASCII paths.
\<close>

definition new_item_path :: "string \<Rightarrow> string \<Rightarrow> string \<Rightarrow> string" where
  "new_item_path oldPath newPath itemPath =
     (let relativePath = (if itemPath = oldPath then [] else drop (length oldPath + 1) itemPath)
      in if relativePath \<noteq> [] then newPath @ ''/'' @ relativePath else newPath)"

fun follow_users ::
  "string \<Rightarrow> string \<Rightarrow> string list \<Rightarrow> (string \<rightharpoonup> string) \<Rightarrow> (string \<rightharpoonup> string) \<times> event list" where
  "follow_users itemPath newItemPath [] uaf = (uaf, [])"
| "follow_users itemPath newItemPath (u # us) uaf =
     (if uaf u = Some itemPath then
        (let (uaf', evs) = follow_users itemPath newItemPath us (uaf(u \<mapsto> newItemPath))
         in (uaf', (To_channel u, Active_file_changed newItemPath) # evs))
      else follow_users itemPath newItemPath us uaf)"

text \<open>
  The assignment \<open>files[newItemPath] = { ...files[itemPath] }\<close>; the item is a key of the
  object throughout the loop, which only adds keys.
\<close>

definition copy_entry :: "string \<Rightarrow> string \<Rightarrow> string \<Rightarrow> tree \<Rightarrow> tree" where
  "copy_entry oldPath newPath itemPath files =
     (case obj_get files itemPath of
        None \<Rightarrow> files
      | Some nd \<Rightarrow> obj_set files (new_item_path oldPath newPath itemPath) nd)"

fun rename_entries ::
  "string \<Rightarrow> string \<Rightarrow> string list \<Rightarrow> string list \<Rightarrow> tree \<Rightarrow> (string \<rightharpoonup> string)
     \<Rightarrow> tree \<times> (string \<rightharpoonup> string) \<times> event list" where
  "rename_entries oldPath newPath users [] files uaf = (files, uaf, [])"
| "rename_entries oldPath newPath users (itemPath # items) files uaf =
     (let files1 = copy_entry oldPath newPath itemPath files;
          (uaf1, evs1) = follow_users itemPath (new_item_path oldPath newPath itemPath) users uaf;
          (files2, uaf2, evs2) = rename_entries oldPath newPath users items files1 uaf1
      in (files2, uaf2, evs1 @ evs2))"

text \<open>
  The rename in the working directory, when the room has one: the disk as left, and
  \<open>False\<close> when a call threw.
\<close>

definition rename_on_disk :: "filesystem \<Rightarrow> string \<Rightarrow> string \<Rightarrow> string \<Rightarrow> filesystem \<times> bool" where
  "rename_on_disk d workDir oldPath newPath =
     (let oldFullPath = path_join workDir oldPath;
          newFullPath = path_join workDir newPath
      in
      if existsSync d oldFullPath then
        (let newDir = path_dirname newFullPath in
         case (if \<not> existsSync d newDir then mkdirSync_recursive d newDir else Some d) of
           None \<Rightarrow> (d, False)
         | Some d1 \<Rightarrow>
             (case renameSync d1 oldFullPath newFullPath of
                None \<Rightarrow> (d1, False)
              | Some d2 \<Rightarrow> (d2, True)))
      else (d, True))"

definition rename_in_working_dir ::
  "state \<Rightarrow> string \<Rightarrow> string \<Rightarrow> string \<Rightarrow> filesystem \<times> bool" where
  "rename_in_working_dir st roomCode oldPath newPath =
     (case sharedWorkingDirectories st roomCode of
        None \<Rightarrow> (disk st, True)
      | Some workDir \<Rightarrow> rename_on_disk (disk st) workDir oldPath newPath)"

definition rename_item ::
  "state \<Rightarrow> string \<Rightarrow> string \<Rightarrow> string \<Rightarrow> string \<Rightarrow> state \<times> event list \<times> bool" where
  "rename_item st sock roomCode oldPath newPath =
     (case (case roomFiles st roomCode of None \<Rightarrow> None
            | Some t \<Rightarrow> map_option (Pair t) (obj_get t oldPath)) of
        None \<Rightarrow> (st, [file_error sock ''Item not found''], False)
      | Some (files, nd) \<Rightarrow>
          if obj_get files newPath \<noteq> None \<or> newPath \<in> set object_prototype_members
          then (st, [file_error sock ''Item with new name already exists''], False)
          else
            let itemType = node_type nd;
                (d, ok) = rename_in_working_dir st roomCode oldPath newPath;
                st1 = st\<lparr>disk := d\<rparr>
            in
            if \<not> ok
            then (st1, [file_error sock ''Failed to rename item in working directory''], False)
            else
              let tail_events = (\<lambda>fs. [(To_channel roomCode, Files_update fs),
                                       (To_channel roomCode, Item_renamed oldPath newPath itemType)])
              in
              if itemType = ''folder'' then
                (let itemsToRename = sort (subtree_keys files oldPath) in
                 case rooms st1 roomCode of
                   None \<Rightarrow>
                     (st1\<lparr>roomFiles := (roomFiles st1)
                            (roomCode \<mapsto> (case itemsToRename of [] \<Rightarrow> files
                                          | i # is \<Rightarrow> copy_entry oldPath newPath i files))\<rparr>,
                      [], itemsToRename \<noteq> [])
                 | Some users \<Rightarrow>
                     let (files1, uaf, evs) =
                           rename_entries oldPath newPath users itemsToRename files
                             (userActiveFiles st1);
                         files2 = fold (\<lambda>itemPath f. obj_delete f itemPath) itemsToRename files1
                     in (st1\<lparr>roomFiles := (roomFiles st1)(roomCode \<mapsto> files2),
                             userActiveFiles := uaf\<rparr>,
                         evs @ tail_events files2, False))
              else
                (let newExtension = split_pop_ext newPath;
                     renamed = (case nd of File_node c e x \<Rightarrow> File_node c newExtension x
                                | Folder_node x \<Rightarrow> Folder_node x);
                     files2 = obj_delete (obj_set files newPath renamed) oldPath;
                     st2 = st1\<lparr>roomFiles := (roomFiles st1)(roomCode \<mapsto> files2)\<rparr>
                 in
                 case rooms st2 roomCode of
                   None \<Rightarrow> (st2, [], True)
                 | Some users \<Rightarrow>
                     let (uaf, evs) = follow_users oldPath newPath users (userActiveFiles st2)
                     in (st2\<lparr>userActiveFiles := uaf\<rparr>, evs @ tail_events files2, False)))"



section \<open>The server at start-up\<close>

text \<open>The tables as the module creates them, with nothing persisted and an empty disk.\<close>

definition initial_state :: state where
  "initial_state =
     \<lparr>terminals = {}, sharedWorkingDirectories = Map.empty, fileWatchers = {},
      userRooms = Map.empty, fileSyncInProgress = {}, rooms = Map.empty,
      roomFiles = Map.empty, userActiveFiles = Map.empty, userSession = Map.empty,
      roomStore = Map.empty, disk = [], socketChannels = (\<lambda>s. {}),
      socketRoomCode = Map.empty, socketUsername = Map.empty, pending = [], writeLog = []\<rparr>"

text \<open>
  A platform for the examples: temporary directory \<open>/tmp\<close>, a shell that spawns, and a
  password hash \<open>h:\<close> followed by the password, which the password check accepts.
\<close>

definition sample_env :: env where
  "sample_env = \<lparr>os_tmpdir = ''/tmp'', pty_spawn_ok = True,
                  bcrypt_hash = (\<lambda>password. ''h:'' @ password),
                  bcrypt_compare = (\<lambda>password hash. hash = ''h:'' @ password)\<rparr>"

text \<open>
  A room for the examples: code \<open>ABC123\<close>, members \<open>sA\<close> and \<open>sB\<close>, who have both
  joined the room's channel, and a tree with one file and one folder.
\<close>

definition sample_room :: state where
  "sample_room =
     initial_state
       \<lparr>rooms := [''ABC123'' \<mapsto> [''sA'', ''sB'']],
        roomFiles := [''ABC123'' \<mapsto> [(''main.js'', File_node ''// start typing...'' ''js'' False),
                                    (''src'', Folder_node False)]],
        userActiveFiles := [''sA'' \<mapsto> ''main.js'', ''sB'' \<mapsto> ''main.js''],
        socketChannels := (\<lambda>s. if s = ''sA'' \<or> s = ''sB'' then {''ABC123''} else {})\<rparr>"

text \<open>
  The same room once both members have their terminals: the shared working directory
  exists on disk and is watched.
\<close>

definition sample_live_room :: state where
  "sample_live_room =
     sample_room
       \<lparr>terminals := {''sA'', ''sB''},
        sharedWorkingDirectories := [''ABC123'' \<mapsto> ''/tmp/compiler_ABC123''],
        fileWatchers := {''ABC123''},
        userRooms := [''sA'' \<mapsto> ''ABC123'', ''sB'' \<mapsto> ''ABC123''],
        disk := [(''/tmp'', DDir), (''/tmp/compiler_ABC123'', DDir)]\<rparr>"


text \<open>The live room when a shell has just written the file \<open>Makefile\<close>.\<close>

definition sample_shell_room :: state where
  "sample_shell_room =
     sample_live_room
       \<lparr>disk := [(''/tmp'', DDir), (''/tmp/compiler_ABC123'', DDir),
                 (''/tmp/compiler_ABC123/Makefile'', DFile ''all:'')]\<rparr>"





section \<open>Reachable states\<close>


text \<open>
  The states the server reaches from start-up. Only \<open>create-room\<close> persists a room and
  only \<open>create-room\<close> and \<open>join-room\<close> call \<open>socket.join\<close>; every other handler,
  callback and timer, the expiry of a persisted room, the disconnect of a socket and a
  restart of the server (which keeps the persisted rooms and nothing else) are covered by
  the last rule: a step that persists no room and joins no channel.
\<close>

inductive reachable :: "env \<Rightarrow> state \<Rightarrow> bool" for ev :: env where
  start: "reachable ev initial_state"
| create: "reachable ev st \<Longrightarrow> reachable ev (fst (create_room ev st sock username password rnd))"
| join: "reachable ev st \<Longrightarrow> reachable ev (fst (join_room ev st sock username roomCode password))"
| other: "reachable ev st \<Longrightarrow> \<forall>rc. roomStore st' rc \<noteq> None \<longrightarrow> roomStore st rc \<noteq> None
            \<Longrightarrow> \<forall>s. socketChannels st' s \<subseteq> socketChannels st s \<Longrightarrow> reachable ev st'"

section \<open>The specification's notions\<close>

text \<open>
  The extension as the specification words it: the substring after the final dot of the
  leaf name, and empty when the leaf has no dot.
\<close>

definition spec_extension :: "string \<Rightarrow> string" where
  "spec_extension p =
     (let l = leaf_name p
      in if CHR ''.'' \<in> set l then rev (takeWhile (\<lambda>c. c \<noteq> CHR ''.'') (rev l)) else [])"

section \<open>Facts about objects and the examples\<close>


lemma obj_get_delete: "obj_get (obj_delete fs k) k' = (if k' = k then None else obj_get fs k')"
  by (simp add: obj_get_def obj_delete_def delete_conv')


lemmas sample_defs = sample_live_room_def sample_room_def initial_state_def sample_env_def

lemmas fs_defs = write_if_changed_def path_join_def path_dirname_def existsSync_def
  readFileSync_def writeFileSync_def obj_get_def obj_set_def


text \<open>
  The first member joins a persisted room on a fresh server: the room is materialised
  with the default file, the working directory is created and watched, the shell is
  spawned, and the sync of the tree to the working directory is scheduled.
\<close>

lemma join_room_example:
  "join_room sample_env
     (initial_state\<lparr>roomStore := [''ABC123'' \<mapsto> ''h:p''], disk := [(''/tmp'', DDir)]\<rparr>)
     ''sA'' ''alice'' ''ABC123'' ''p''
   = (initial_state
        \<lparr>roomStore := [''ABC123'' \<mapsto> ''h:p''],
         disk := [(''/tmp'', DDir), (''/tmp/compiler_ABC123'', DDir)],
         userSession := [''sA'' \<mapsto> (''ABC123'', ''alice'')],
         rooms := [''ABC123'' \<mapsto> [''sA'']],
         roomFiles := [''ABC123'' \<mapsto> getDefaultFiles],
         socketChannels := (\<lambda>s. {})(''sA'' := {''ABC123''}),
         socketRoomCode := [''sA'' \<mapsto> ''ABC123''],
         socketUsername := [''sA'' \<mapsto> ''alice''],
         userActiveFiles := [''sA'' \<mapsto> ''main.js''],
         sharedWorkingDirectories := [''ABC123'' \<mapsto> ''/tmp/compiler_ABC123''],
         fileWatchers := {''ABC123''},
         userRooms := [''sA'' \<mapsto> ''ABC123''],
         terminals := {''sA''},
         pending := [Sync_room_files ''ABC123'']\<rparr>,
      Join_ok ''Successfully joined room ABC123'' getDefaultFiles (Some ''main.js''),
      [(To_channel ''sA'', Terminal_output (welcome_message ''ABC123'')),
       (To_others ''ABC123'' ''sA'', User_joined ''alice'' ''sA'')])"
  by (simp add: join_room_def initializeTerminal_def sample_defs getDefaultFiles_def file_keys_def
      obj_keys_def obj_get_def is_file_node_def path_join_def existsSync_def
      mkdirSync_recursive_def dir_chain_def is_dfile_def obj_set_def Let_def)

section \<open>Joining a room\<close>

text \<open>
  Claim C5. A \<open>join-room\<close> request for a room code without persisted room is answered
  through the callback with the room-not-found failure; a request whose password does not
  match the stored hash is answered with the invalid-password failure. In both cases the
  server's state is the state before the request (membership, sessions, active files and
  terminals included) and nothing is emitted.
\<close>

theorem join_room_auth_failure:
  "(roomStore st roomCode = None \<longrightarrow>
      join_room ev st sock username roomCode password =
        (st, Join_failed ''Room not found. Please check the room code.'', []))
   \<and> (\<forall>hash. roomStore st roomCode = Some hash \<and> \<not> bcrypt_compare ev password hash \<longrightarrow>
        join_room ev st sock username roomCode password =
          (st, Join_failed ''Invalid password. Please try again.'', []))"
  by (simp add: join_room_def)

theorem join_room_auth_failure_witness:
  "roomStore initial_state ''ABC123'' = None
   \<and> join_room sample_env initial_state ''s1'' ''bob'' ''ABC123'' ''p'' =
       (initial_state, Join_failed ''Room not found. Please check the room code.'', [])
   \<and> roomStore (initial_state\<lparr>roomStore := [''ABC123'' \<mapsto> ''h:p'']\<rparr>) ''ABC123'' = Some ''h:p''
   \<and> \<not> bcrypt_compare sample_env ''q'' ''h:p''
   \<and> join_room sample_env (initial_state\<lparr>roomStore := [''ABC123'' \<mapsto> ''h:p'']\<rparr>)
         ''s1'' ''bob'' ''ABC123'' ''q'' =
       (initial_state\<lparr>roomStore := [''ABC123'' \<mapsto> ''h:p'']\<rparr>,
        Join_failed ''Invalid password. Please try again.'', [])"
  using join_room_auth_failure [of initial_state "''ABC123''" sample_env "''s1''" "''bob''" "''p''"]
    join_room_auth_failure [of "initial_state\<lparr>roomStore := [''ABC123'' \<mapsto> ''h:p'']\<rparr>"
      "''ABC123''" sample_env "''s1''" "''bob''" "''q''"]
  by (simp add: initial_state_def sample_env_def)

section \<open>Reading the tree\<close>




section \<open>Errors of the tree operations\<close>

text \<open>
  Claim C6. In a room whose tree has exactly one file node (counted as the handler
  counts: the keys whose node has type file, folders left out), a \<open>delete-item\<close> request
  for that file emits the single event \<open>file-error\<close> with the cannot-delete-last-file
  message to the requesting socket, which no other socket receives, and the state (tree
  and working directory included) is the state before the request.
\<close>

theorem delete_last_file_rejected:
  assumes "roomFiles st roomCode = Some files"
    and "obj_get files itemPath = Some (File_node c e x)"
    and "length (file_keys files) = 1"
  shows "delete_item st sock roomCode itemPath =
           (st, [(To_socket sock, File_error ''Cannot delete the last file'')], False)
         \<and> (\<forall>s. receives st s (To_socket sock) \<longleftrightarrow> s = sock)"
  using assms by (simp add: delete_item_def node_type_def file_error_def receives_def)

theorem delete_last_file_rejected_witness:
  "roomFiles sample_room ''ABC123'' =
     Some [(''main.js'', File_node ''// start typing...'' ''js'' False), (''src'', Folder_node False)]
   \<and> file_keys [(''main.js'', File_node ''// start typing...'' ''js'' False),
                 (''src'', Folder_node False)] = [''main.js'']
   \<and> delete_item sample_room ''sA'' ''ABC123'' ''main.js'' =
       (sample_room, [(To_socket ''sA'', File_error ''Cannot delete the last file'')], False)
   \<and> \<not> receives sample_room ''sB'' (To_socket ''sA'')"
proof -
  have t: "roomFiles sample_room ''ABC123'' =
     Some [(''main.js'', File_node ''// start typing...'' ''js'' False), (''src'', Folder_node False)]"
    by (simp add: sample_room_def initial_state_def)
  have k: "file_keys [(''main.js'', File_node ''// start typing...'' ''js'' False),
                      (''src'', Folder_node False)] = [''main.js'']"
    by (simp add: file_keys_def obj_keys_def obj_get_def is_file_node_def)
  have g: "obj_get [(''main.js'', File_node ''// start typing...'' ''js'' False),
                    (''src'', Folder_node False)] ''main.js''
           = Some (File_node ''// start typing...'' ''js'' False)"
    by (simp add: obj_get_def)
  from delete_last_file_rejected [OF t g, of "''sA''"] k t show ?thesis by simp
qed




section \<open>Terminal output\<close>

text \<open>
  No handler, callback or timer other than \<open>create-room\<close> and \<open>join-room\<close> persists a room
  or joins a channel.
\<close>

lemma initializeTerminal_frame:
  "roomStore (fst (initializeTerminal ev st roomCode userId)) = roomStore st
   \<and> socketChannels (fst (initializeTerminal ev st roomCode userId)) = socketChannels st"
  by (simp add: initializeTerminal_def Let_def split: option.splits)

lemma writeFileToWorkingDir_frame:
  "roomStore (fst (writeFileToWorkingDir st roomCode fileName content)) = roomStore st
   \<and> socketChannels (fst (writeFileToWorkingDir st roomCode fileName content)) = socketChannels st"
  by (simp add: writeFileToWorkingDir_def Let_def split: option.splits prod.splits)

lemma createFolderInWorkingDir_frame:
  "roomStore (fst (createFolderInWorkingDir st roomCode folderPath)) = roomStore st
   \<and> socketChannels (fst (createFolderInWorkingDir st roomCode folderPath)) = socketChannels st"
  by (simp add: createFolderInWorkingDir_def Let_def split: option.splits)

lemma syncRoomFilesToWorkingDir_frame:
  "roomStore (syncRoomFilesToWorkingDir st roomCode) = roomStore st
   \<and> socketChannels (syncRoomFilesToWorkingDir st roomCode) = socketChannels st"
proof -
  have "roomStore (fold (\<lambda>itemPath s.
                  case obj_get files itemPath of
                    Some (File_node c e x) \<Rightarrow> fst (writeFileToWorkingDir s roomCode itemPath c)
                  | Some (Folder_node x) \<Rightarrow> fst (createFolderInWorkingDir s roomCode itemPath)
                  | None \<Rightarrow> s) ks s0) = roomStore s0
        \<and> socketChannels (fold (\<lambda>itemPath s.
                  case obj_get files itemPath of
                    Some (File_node c e x) \<Rightarrow> fst (writeFileToWorkingDir s roomCode itemPath c)
                  | Some (Folder_node x) \<Rightarrow> fst (createFolderInWorkingDir s roomCode itemPath)
                  | None \<Rightarrow> s) ks s0) = socketChannels s0" for files ks s0
    by (induction ks arbitrary: s0)
      (auto simp: writeFileToWorkingDir_frame createFolderInWorkingDir_frame
        split: option.splits node.splits)
  then show ?thesis
    by (simp add: syncRoomFilesToWorkingDir_def split: option.splits)
qed

lemma run_task_frame:
  "roomStore (fst (run_task ev st t)) = roomStore st
   \<and> socketChannels (fst (run_task ev st t)) = socketChannels st"
proof (cases t)
  case (Clear_token k)
  then show ?thesis by (simp add: run_task_def)
next
  case (Write_file r p c)
  then show ?thesis by (simp add: run_task_def writeFileToWorkingDir_frame)
next
  case (Sync_room_files r)
  then show ?thesis by (simp add: run_task_def syncRoomFilesToWorkingDir_frame)
next
  case (Respawn r u)
  let ?s0 = "st\<lparr>pending := remove1 t (pending st)\<rparr>"
  obtain s1 evs threw where i: "initializeTerminal ev ?s0 r u = (s1, evs, threw)"
    by (cases "initializeTerminal ev ?s0 r u") auto
  with initializeTerminal_frame [of ev ?s0 r u] Respawn show ?thesis
    by (simp add: run_task_def)
qed

lemma code_change_frame:
  "roomStore (fst (code_change st sock roomCode code fileName)) = roomStore st
   \<and> socketChannels (fst (code_change st sock roomCode code fileName)) = socketChannels st"
  by (simp add: code_change_def split: option.splits node.splits)

lemma watcher_frame:
  "roomStore (fst (syncFileFromTerminalToRoom st roomCode fileName filePath)) = roomStore st
   \<and> socketChannels (fst (syncFileFromTerminalToRoom st roomCode fileName filePath))
       = socketChannels st"
  "roomStore (fst (syncFolderFromTerminalToRoom st roomCode folderPath)) = roomStore st
   \<and> socketChannels (fst (syncFolderFromTerminalToRoom st roomCode folderPath))
       = socketChannels st"
  "roomStore (fst (removeFolderFromRoomFiles st roomCode folderPath)) = roomStore st
   \<and> socketChannels (fst (removeFolderFromRoomFiles st roomCode folderPath)) = socketChannels st"
  by (simp_all add: syncFileFromTerminalToRoom_def syncFolderFromTerminalToRoom_def
      removeFolderFromRoomFiles_def Let_def split: option.splits)

lemma removeFileFromRoomFiles_frame:
  "roomStore (fst (removeFileFromRoomFiles st roomCode fileName)) = roomStore st
   \<and> socketChannels (fst (removeFileFromRoomFiles st roomCode fileName)) = socketChannels st"
  by (simp add: removeFileFromRoomFiles_def Let_def split: option.splits list.splits prod.splits)

lemma terminal_frame:
  "roomStore (fst (pty_onExit st roomCode userId)) = roomStore st
   \<and> socketChannels (fst (pty_onExit st roomCode userId)) = socketChannels st"
  "roomStore (fst (run_file st sock roomCode fileName)) = roomStore st
   \<and> socketChannels (fst (run_file st sock roomCode fileName)) = socketChannels st"
  by (simp_all add: pty_onExit_def run_file_def writeFileToWorkingDir_frame Let_def
      split: option.splits node.splits)

lemma delete_item_frame:
  "roomStore (fst (delete_item st sock roomCode itemPath)) = roomStore st
   \<and> socketChannels (fst (delete_item st sock roomCode itemPath)) = socketChannels st"
  by (simp add: delete_item_def Let_def split: option.splits list.splits prod.splits)

lemma rename_item_frame:
  "roomStore (fst (rename_item st sock roomCode oldPath newPath)) = roomStore st
   \<and> socketChannels (fst (rename_item st sock roomCode oldPath newPath)) = socketChannels st"
  by (simp add: rename_item_def Let_def split: option.splits list.splits prod.splits)





lemma reachable_handlers:
  assumes "reachable ev st"
  shows "reachable ev (fst (code_change st sock roomCode code fileName))"
    and "reachable ev (fst (delete_item st sock roomCode itemPath))"
    and "reachable ev (fst (rename_item st sock roomCode oldPath newPath))"
    and "reachable ev (fst (run_file st sock roomCode name))"
    and "reachable ev (fst (pty_onExit st roomCode sock))"
    and "reachable ev (fst (run_task ev st t))"
    and "reachable ev (fst (syncFileFromTerminalToRoom st roomCode name filePath))"
    and "reachable ev (fst (syncFolderFromTerminalToRoom st roomCode folderPath))"
    and "reachable ev (fst (removeFileFromRoomFiles st roomCode name))"
    and "reachable ev (fst (removeFolderFromRoomFiles st roomCode folderPath))"
  using assms
  by (auto intro!: reachable.other [of ev st]
      simp: code_change_frame delete_item_frame rename_item_frame terminal_frame run_task_frame
        watcher_frame removeFileFromRoomFiles_frame)










section \<open>Sync tokens\<close>

lemma sample_tokens:
  "editor_key ''ABC123'' ''main.js'' \<noteq> terminal_key ''ABC123'' ''main.js''"
  by (simp add: editor_key_def terminal_key_def)

text \<open>
  Claim C1, as the code has it. Each direction consults the token of its own origin, and
  only that one. When the editor-to-disk write finds the editor token of the same room
  and path in the active set, and when the terminal-to-tree sync finds the terminal token
  of the same room and path there, the operation is dropped silently and the state (tree,
  disk and token set included) is unchanged. No other token suppresses or alters either
  operation: with any other set of active tokens that agrees on the operation's own
  token, the terminal token of the same room and path included for the write and the
  editor token for the sync, the write returns the same value, leaves the same disk and
  tree and makes the same \<open>fs.writeFileSync\<close> calls, and the sync emits the same events and
  leaves the same tree and disk.
\<close>

theorem own_origin_token_drops:
  "(editor_key roomCode fileName \<in> fileSyncInProgress st \<longrightarrow>
      writeFileToWorkingDir st roomCode fileName content = (st, True))
   \<and> (terminal_key roomCode fileName \<in> fileSyncInProgress st \<longrightarrow>
        syncFileFromTerminalToRoom st roomCode fileName filePath = (st, []))
   \<and> (\<forall>T. (editor_key roomCode fileName \<in> T
               \<longleftrightarrow> editor_key roomCode fileName \<in> fileSyncInProgress st) \<longrightarrow>
          snd (writeFileToWorkingDir (st\<lparr>fileSyncInProgress := T\<rparr>) roomCode fileName content)
            = snd (writeFileToWorkingDir st roomCode fileName content)
          \<and> disk (fst (writeFileToWorkingDir (st\<lparr>fileSyncInProgress := T\<rparr>)
                          roomCode fileName content))
              = disk (fst (writeFileToWorkingDir st roomCode fileName content))
          \<and> writeLog (fst (writeFileToWorkingDir (st\<lparr>fileSyncInProgress := T\<rparr>)
                              roomCode fileName content))
              = writeLog (fst (writeFileToWorkingDir st roomCode fileName content))
          \<and> roomFiles (fst (writeFileToWorkingDir (st\<lparr>fileSyncInProgress := T\<rparr>)
                               roomCode fileName content))
              = roomFiles (fst (writeFileToWorkingDir st roomCode fileName content)))
   \<and> (\<forall>T. (terminal_key roomCode fileName \<in> T
               \<longleftrightarrow> terminal_key roomCode fileName \<in> fileSyncInProgress st) \<longrightarrow>
          snd (syncFileFromTerminalToRoom (st\<lparr>fileSyncInProgress := T\<rparr>)
                 roomCode fileName filePath)
            = snd (syncFileFromTerminalToRoom st roomCode fileName filePath)
          \<and> roomFiles (fst (syncFileFromTerminalToRoom (st\<lparr>fileSyncInProgress := T\<rparr>)
                               roomCode fileName filePath))
              = roomFiles (fst (syncFileFromTerminalToRoom st roomCode fileName filePath))
          \<and> disk (fst (syncFileFromTerminalToRoom (st\<lparr>fileSyncInProgress := T\<rparr>)
                          roomCode fileName filePath))
              = disk (fst (syncFileFromTerminalToRoom st roomCode fileName filePath)))"
proof (intro conjI allI impI)
  fix T
  assume "editor_key roomCode fileName \<in> T
            \<longleftrightarrow> editor_key roomCode fileName \<in> fileSyncInProgress st"
  then show
    "snd (writeFileToWorkingDir (st\<lparr>fileSyncInProgress := T\<rparr>) roomCode fileName content)
       = snd (writeFileToWorkingDir st roomCode fileName content)"
    and "disk (fst (writeFileToWorkingDir (st\<lparr>fileSyncInProgress := T\<rparr>)
                      roomCode fileName content))
           = disk (fst (writeFileToWorkingDir st roomCode fileName content))"
    and "writeLog (fst (writeFileToWorkingDir (st\<lparr>fileSyncInProgress := T\<rparr>)
                          roomCode fileName content))
           = writeLog (fst (writeFileToWorkingDir st roomCode fileName content))"
    and "roomFiles (fst (writeFileToWorkingDir (st\<lparr>fileSyncInProgress := T\<rparr>)
                           roomCode fileName content))
           = roomFiles (fst (writeFileToWorkingDir st roomCode fileName content))"
    by (simp_all add: writeFileToWorkingDir_def Let_def split: option.splits prod.splits)
next
  fix T
  assume "terminal_key roomCode fileName \<in> T
            \<longleftrightarrow> terminal_key roomCode fileName \<in> fileSyncInProgress st"
  then show
    "snd (syncFileFromTerminalToRoom (st\<lparr>fileSyncInProgress := T\<rparr>) roomCode fileName filePath)
       = snd (syncFileFromTerminalToRoom st roomCode fileName filePath)"
    and "roomFiles (fst (syncFileFromTerminalToRoom (st\<lparr>fileSyncInProgress := T\<rparr>)
                           roomCode fileName filePath))
           = roomFiles (fst (syncFileFromTerminalToRoom st roomCode fileName filePath))"
    and "disk (fst (syncFileFromTerminalToRoom (st\<lparr>fileSyncInProgress := T\<rparr>)
                      roomCode fileName filePath))
           = disk (fst (syncFileFromTerminalToRoom st roomCode fileName filePath))"
    by (simp_all add: syncFileFromTerminalToRoom_def Let_def split: option.splits)
qed (simp_all add: writeFileToWorkingDir_def syncFileFromTerminalToRoom_def)

theorem own_origin_token_drops_witness:
  "editor_key ''ABC123'' ''main.js''
     \<in> fileSyncInProgress
         (sample_live_room\<lparr>fileSyncInProgress := {editor_key ''ABC123'' ''main.js''}\<rparr>)
   \<and> writeFileToWorkingDir
         (sample_live_room\<lparr>fileSyncInProgress := {editor_key ''ABC123'' ''main.js''}\<rparr>)
         ''ABC123'' ''main.js'' ''x=1''
       = (sample_live_room\<lparr>fileSyncInProgress := {editor_key ''ABC123'' ''main.js''}\<rparr>, True)
   \<and> terminal_key ''ABC123'' ''main.js''
       \<in> fileSyncInProgress
           (sample_live_room\<lparr>fileSyncInProgress := {terminal_key ''ABC123'' ''main.js''}\<rparr>)
   \<and> syncFileFromTerminalToRoom
         (sample_live_room\<lparr>fileSyncInProgress := {terminal_key ''ABC123'' ''main.js''}\<rparr>)
         ''ABC123'' ''main.js'' ''/tmp/compiler_ABC123/main.js''
       = (sample_live_room\<lparr>fileSyncInProgress := {terminal_key ''ABC123'' ''main.js''}\<rparr>, [])
   \<and> fileSyncInProgress sample_live_room = {}
   \<and> (editor_key ''ABC123'' ''main.js'' \<in> {terminal_key ''ABC123'' ''main.js''}
        \<longleftrightarrow> editor_key ''ABC123'' ''main.js'' \<in> fileSyncInProgress sample_live_room)
   \<and> disk (fst (writeFileToWorkingDir
         (sample_live_room\<lparr>fileSyncInProgress := {terminal_key ''ABC123'' ''main.js''}\<rparr>)
         ''ABC123'' ''main.js'' ''x=1''))
       = disk (fst (writeFileToWorkingDir sample_live_room ''ABC123'' ''main.js'' ''x=1''))
   \<and> disk (fst (writeFileToWorkingDir sample_live_room ''ABC123'' ''main.js'' ''x=1''))
       = [(''/tmp'', DDir), (''/tmp/compiler_ABC123'', DDir),
          (''/tmp/compiler_ABC123/main.js'', DFile ''x=1'')]
   \<and> fileSyncInProgress sample_shell_room = {}
   \<and> (terminal_key ''ABC123'' ''Makefile'' \<in> {editor_key ''ABC123'' ''Makefile''}
        \<longleftrightarrow> terminal_key ''ABC123'' ''Makefile'' \<in> fileSyncInProgress sample_shell_room)
   \<and> roomFiles (fst (syncFileFromTerminalToRoom
         (sample_shell_room\<lparr>fileSyncInProgress := {editor_key ''ABC123'' ''Makefile''}\<rparr>)
         ''ABC123'' ''Makefile'' ''/tmp/compiler_ABC123/Makefile''))
       = roomFiles (fst (syncFileFromTerminalToRoom sample_shell_room
                           ''ABC123'' ''Makefile'' ''/tmp/compiler_ABC123/Makefile''))
   \<and> roomFiles (fst (syncFileFromTerminalToRoom sample_shell_room
                         ''ABC123'' ''Makefile'' ''/tmp/compiler_ABC123/Makefile'')) ''ABC123''
       = Some [(''main.js'', File_node ''// start typing...'' ''js'' False),
               (''src'', Folder_node False),
               (''Makefile'', File_node ''all:'' ''txt'' False)]"
proof -
  have live: "fileSyncInProgress sample_live_room = {}"
    by (simp add: sample_defs)
  have shell: "fileSyncInProgress sample_shell_room = {}"
    by (simp add: sample_shell_room_def sample_defs)
  have written:
    "disk (fst (writeFileToWorkingDir sample_live_room ''ABC123'' ''main.js'' ''x=1''))
       = [(''/tmp'', DDir), (''/tmp/compiler_ABC123'', DDir),
          (''/tmp/compiler_ABC123/main.js'', DFile ''x=1'')]"
    by (simp add: writeFileToWorkingDir_def sample_defs editor_key_def fs_defs Let_def)
  have synced:
    "roomFiles (fst (syncFileFromTerminalToRoom sample_shell_room
                       ''ABC123'' ''Makefile'' ''/tmp/compiler_ABC123/Makefile'')) ''ABC123''
       = Some [(''main.js'', File_node ''// start typing...'' ''js'' False),
               (''src'', Folder_node False),
               (''Makefile'', File_node ''all:'' ''txt'' False)]"
    by (simp add: syncFileFromTerminalToRoom_def sample_shell_room_def sample_defs
        terminal_key_def path_extname_def leaf_name_def readFileSync_def obj_get_def
        obj_set_def Let_def)
  have k: "editor_key ''ABC123'' ''Makefile'' \<noteq> terminal_key ''ABC123'' ''Makefile''"
    by (simp add: editor_key_def terminal_key_def)
  from own_origin_token_drops
      [of "''ABC123''" "''main.js''"
        "sample_live_room\<lparr>fileSyncInProgress := {editor_key ''ABC123'' ''main.js''}\<rparr>"
        "''x=1''" "''/tmp/compiler_ABC123/main.js''"]
    own_origin_token_drops
      [of "''ABC123''" "''main.js''"
        "sample_live_room\<lparr>fileSyncInProgress := {terminal_key ''ABC123'' ''main.js''}\<rparr>"
        "''x=1''" "''/tmp/compiler_ABC123/main.js''"]
  have own: "writeFileToWorkingDir
         (sample_live_room\<lparr>fileSyncInProgress := {editor_key ''ABC123'' ''main.js''}\<rparr>)
         ''ABC123'' ''main.js'' ''x=1''
       = (sample_live_room\<lparr>fileSyncInProgress := {editor_key ''ABC123'' ''main.js''}\<rparr>, True)"
    "syncFileFromTerminalToRoom
         (sample_live_room\<lparr>fileSyncInProgress := {terminal_key ''ABC123'' ''main.js''}\<rparr>)
         ''ABC123'' ''main.js'' ''/tmp/compiler_ABC123/main.js''
       = (sample_live_room\<lparr>fileSyncInProgress := {terminal_key ''ABC123'' ''main.js''}\<rparr>, [])"
    by simp_all
  from own_origin_token_drops
      [of "''ABC123''" "''main.js''" sample_live_room "''x=1''" "''/tmp/compiler_ABC123/main.js''"]
  have "\<forall>T. (editor_key ''ABC123'' ''main.js'' \<in> T
               \<longleftrightarrow> editor_key ''ABC123'' ''main.js'' \<in> fileSyncInProgress sample_live_room) \<longrightarrow>
     disk (fst (writeFileToWorkingDir (sample_live_room\<lparr>fileSyncInProgress := T\<rparr>)
                  ''ABC123'' ''main.js'' ''x=1''))
       = disk (fst (writeFileToWorkingDir sample_live_room ''ABC123'' ''main.js'' ''x=1''))"
    by blast
  then have opp1:
    "disk (fst (writeFileToWorkingDir
         (sample_live_room\<lparr>fileSyncInProgress := {terminal_key ''ABC123'' ''main.js''}\<rparr>)
         ''ABC123'' ''main.js'' ''x=1''))
       = disk (fst (writeFileToWorkingDir sample_live_room ''ABC123'' ''main.js'' ''x=1''))"
    using live sample_tokens by simp
  from own_origin_token_drops
      [of "''ABC123''" "''Makefile''" sample_shell_room "''x=1''"
        "''/tmp/compiler_ABC123/Makefile''"]
  have "\<forall>T. (terminal_key ''ABC123'' ''Makefile'' \<in> T
               \<longleftrightarrow> terminal_key ''ABC123'' ''Makefile'' \<in> fileSyncInProgress sample_shell_room) \<longrightarrow>
     roomFiles (fst (syncFileFromTerminalToRoom (sample_shell_room\<lparr>fileSyncInProgress := T\<rparr>)
                  ''ABC123'' ''Makefile'' ''/tmp/compiler_ABC123/Makefile''))
       = roomFiles (fst (syncFileFromTerminalToRoom sample_shell_room
                           ''ABC123'' ''Makefile'' ''/tmp/compiler_ABC123/Makefile''))"
    by blast
  then have opp2:
    "roomFiles (fst (syncFileFromTerminalToRoom
         (sample_shell_room\<lparr>fileSyncInProgress := {editor_key ''ABC123'' ''Makefile''}\<rparr>)
         ''ABC123'' ''Makefile'' ''/tmp/compiler_ABC123/Makefile''))
       = roomFiles (fst (syncFileFromTerminalToRoom sample_shell_room
                           ''ABC123'' ''Makefile'' ''/tmp/compiler_ABC123/Makefile''))"
    using shell k by simp
  from own opp1 opp2 written synced live shell sample_tokens k show ?thesis
    by simp
qed

text \<open>
  The claim as stated fails in both directions. With the terminal token of
  \<open>(ABC123, main.js)\<close> active, the editor-to-disk write of \<open>main.js\<close> creates the file on
  disk; with the editor token active and \<open>main.js\<close> holding \<open>shell\<close> on disk, the
  terminal-to-tree sync replaces the content of the tree's node.
\<close>

theorem opposite_token_counterexample:
  "terminal_key ''ABC123'' ''main.js''
     \<in> fileSyncInProgress
         (sample_live_room\<lparr>fileSyncInProgress := {terminal_key ''ABC123'' ''main.js''}\<rparr>)
   \<and> disk (sample_live_room\<lparr>fileSyncInProgress := {terminal_key ''ABC123'' ''main.js''}\<rparr>)
       = [(''/tmp'', DDir), (''/tmp/compiler_ABC123'', DDir)]
   \<and> disk (fst (writeFileToWorkingDir
         (sample_live_room\<lparr>fileSyncInProgress := {terminal_key ''ABC123'' ''main.js''}\<rparr>)
         ''ABC123'' ''main.js'' ''x=1''))
       = [(''/tmp'', DDir), (''/tmp/compiler_ABC123'', DDir),
          (''/tmp/compiler_ABC123/main.js'', DFile ''x=1'')]
   \<and> editor_key ''ABC123'' ''main.js''
       \<in> fileSyncInProgress
           (sample_live_room\<lparr>fileSyncInProgress := {editor_key ''ABC123'' ''main.js''},
              disk := [(''/tmp'', DDir), (''/tmp/compiler_ABC123'', DDir),
                       (''/tmp/compiler_ABC123/main.js'', DFile ''shell'')]\<rparr>)
   \<and> roomFiles (fst (syncFileFromTerminalToRoom
         (sample_live_room\<lparr>fileSyncInProgress := {editor_key ''ABC123'' ''main.js''},
            disk := [(''/tmp'', DDir), (''/tmp/compiler_ABC123'', DDir),
                     (''/tmp/compiler_ABC123/main.js'', DFile ''shell'')]\<rparr>)
         ''ABC123'' ''main.js'' ''/tmp/compiler_ABC123/main.js'')) ''ABC123''
       = Some [(''main.js'', File_node ''shell'' ''js'' False), (''src'', Folder_node False)]"
  by (simp add: writeFileToWorkingDir_def syncFileFromTerminalToRoom_def sample_live_room_def
      sample_room_def initial_state_def editor_key_def terminal_key_def write_if_changed_def
      path_join_def path_dirname_def path_extname_def leaf_name_def existsSync_def obj_get_def
      readFileSync_def writeFileSync_def obj_set_def Let_def)

section \<open>Repeated code changes\<close>

















section \<open>The last file of a room\<close>

lemma file_keys_delete:
  "file_keys (obj_delete files k) = filter (\<lambda>k'. k' \<noteq> k) (file_keys files)"
proof -
  have "map fst (AList.delete k files) = filter (\<lambda>k'. k' \<noteq> k) (map fst files)"
    by (induction files) auto
  then have "obj_keys (obj_delete files k) = filter (\<lambda>k'. k' \<noteq> k) (obj_keys files)"
    by (simp add: obj_keys_def obj_delete_def)
  then show ?thesis
    unfolding file_keys_def
    by (auto simp: obj_get_delete intro!: filter_cong)
qed

lemma file_keys_distinct: "distinct (obj_keys files) \<Longrightarrow> distinct (file_keys files)"
  by (simp add: file_keys_def)

lemma file_keys_member:
  "obj_get files k = Some (File_node c e x) \<Longrightarrow> k \<in> set (file_keys files)"
  by (auto simp: file_keys_def obj_keys_def obj_get_def is_file_node_def dest: map_of_SomeD
      intro: rev_image_eqI)

lemma filter_out_one:
  "distinct xs \<Longrightarrow> 1 < length xs \<Longrightarrow> filter (\<lambda>k'. k' \<noteq> k) xs \<noteq> []"
proof -
  assume d: "distinct xs" and l: "1 < length xs"
  then obtain a b ys where xs: "xs = a # b # ys" by (cases xs; cases "tl xs") auto
  with d have "a \<noteq> b" by simp
  then have "a \<noteq> k \<or> b \<noteq> k" by auto
  then show ?thesis using xs by auto
qed

lemma delete_item_file_tree:
  assumes "roomFiles st roomCode = Some files"
    and "obj_get files itemPath = Some (File_node c e x)"
    and "1 < length (file_keys files)"
  shows "roomFiles (fst (delete_item st sock roomCode itemPath)) roomCode
           = Some (obj_delete files itemPath)"
  using assms
  by (simp add: delete_item_def node_type_def Let_def split: list.splits option.splits prod.splits)

text \<open>
  Claim C3, as the code has it. The editor's \<open>delete-item\<close> of a file node never leaves
  the room's tree (an object, so with distinct keys) without a file node: the request for
  the last file is refused, and any other leaves a file behind. The watcher-driven removal
  of a file deleted from the working directory is not guarded: it removes the node also
  when it is the last file.
\<close>

theorem delete_file_keeps_a_file:
  assumes "roomFiles st roomCode = Some files"
    and "distinct (obj_keys files)"
    and "obj_get files itemPath = Some (File_node c e x)"
  shows "\<exists>files'. roomFiles (fst (delete_item st sock roomCode itemPath)) roomCode = Some files'
           \<and> file_keys files' \<noteq> []"
proof (cases "1 < length (file_keys files)")
  case True
  have "file_keys (obj_delete files itemPath) \<noteq> []"
    using file_keys_distinct [OF assms(2)] True by (simp add: file_keys_delete filter_out_one)
  with delete_item_file_tree [OF assms(1,3) True] show ?thesis by simp
next
  case False
  then have "fst (delete_item st sock roomCode itemPath) = st"
    using assms(1,3) by (simp add: delete_item_def node_type_def)
  moreover have "file_keys files \<noteq> []"
    using file_keys_member [OF assms(3)] by auto
  ultimately show ?thesis using assms(1) by simp
qed

theorem delete_file_keeps_a_file_witness:
  "distinct (obj_keys [(''main.js'', File_node ''x=1'' ''js'' False),
                       (''util.js'', File_node ''y=2'' ''js'' False),
                       (''src'', Folder_node False)])
   \<and> roomFiles (fst (delete_item
         (sample_live_room\<lparr>roomFiles := [''ABC123'' \<mapsto>
             [(''main.js'', File_node ''x=1'' ''js'' False),
              (''util.js'', File_node ''y=2'' ''js'' False),
              (''src'', Folder_node False)]]\<rparr>)
         ''sA'' ''ABC123'' ''util.js'')) ''ABC123''
       = Some [(''main.js'', File_node ''x=1'' ''js'' False), (''src'', Folder_node False)]
   \<and> file_keys [(''main.js'', File_node ''x=1'' ''js'' False), (''src'', Folder_node False)]
       = [''main.js'']"
proof -
  let ?T = "[(''main.js'', File_node ''x=1'' ''js'' False),
             (''util.js'', File_node ''y=2'' ''js'' False),
             (''src'', Folder_node False)]"
  let ?S = "sample_live_room\<lparr>roomFiles := [''ABC123'' \<mapsto> ?T]\<rparr>"
  have h1: "roomFiles ?S ''ABC123'' = Some ?T" by simp
  have h2: "distinct (obj_keys ?T)" by (simp add: obj_keys_def)
  have h3: "obj_get ?T ''util.js'' = Some (File_node ''y=2'' ''js'' False)"
    by (simp add: obj_get_def)
  have two: "1 < length (file_keys ?T)"
    by (simp add: file_keys_def obj_keys_def obj_get_def is_file_node_def)
  have k: "file_keys [(''main.js'', File_node ''x=1'' ''js'' False), (''src'', Folder_node False)]
       = [''main.js'']"
    by (simp add: file_keys_def obj_keys_def obj_get_def is_file_node_def)
  from delete_file_keeps_a_file [OF h1 h2 h3, of "''sA''"]
    delete_item_file_tree [OF h1 h3 two, of "''sA''"] h2 k
  show ?thesis by (simp add: obj_delete_def)
qed

text \<open>
  The claim as stated fails. In the room \<open>ABC123\<close> with members \<open>sA\<close> and \<open>sB\<close>, whose
  only file is \<open>main.js\<close>, the watcher's removal of \<open>main.js\<close> (deleted in a shell)
  leaves a tree without file node; and the editor's \<open>delete-item\<close> of the folder \<open>src\<close>,
  when the only file of the tree is \<open>src/a.js\<close>, leaves the empty tree.
\<close>

theorem last_file_removed_counterexample:
  "rooms (fst (removeFileFromRoomFiles sample_live_room ''ABC123'' ''main.js'')) ''ABC123''
     = Some [''sA'', ''sB'']
   \<and> roomFiles (fst (removeFileFromRoomFiles sample_live_room ''ABC123'' ''main.js'')) ''ABC123''
     = Some [(''src'', Folder_node False)]
   \<and> file_keys [(''src'', Folder_node False)] = []
   \<and> file_keys [(''src'', Folder_node False),
                 (''src/a.js'', File_node ''// JavaScript file'' ''js'' False)] = [''src/a.js'']
   \<and> roomFiles (fst (delete_item
         (sample_live_room\<lparr>roomFiles := [''ABC123'' \<mapsto>
             [(''src'', Folder_node False),
              (''src/a.js'', File_node ''// JavaScript file'' ''js'' False)]],
            userActiveFiles := [''sA'' \<mapsto> ''src/a.js'', ''sB'' \<mapsto> ''src/a.js'']\<rparr>)
         ''sA'' ''ABC123'' ''src'')) ''ABC123''
     = Some []"
  by (simp add: removeFileFromRoomFiles_def delete_item_def sample_defs obj_get_def
      obj_delete_def file_keys_def obj_keys_def is_file_node_def node_type_def subtree_keys_def
      starts_with_dir_def Let_def)

section \<open>Renaming\<close>

lemma js_split_no_sep: "c \<notin> set s \<Longrightarrow> js_split c s = [s]"
  by (induction s) auto

lemma takeWhile_snoc_stop: "\<not> P c \<Longrightarrow> takeWhile P (ys @ [c]) = takeWhile P ys"
  by (induction ys) auto

lemma after_last_none:
  assumes "c \<notin> set s"
  shows "rev (takeWhile (\<lambda>x. x \<noteq> c) (rev s)) = s"
proof -
  from assms have "takeWhile (\<lambda>x. x \<noteq> c) (rev s) = rev s"
    by (subst takeWhile_eq_all_conv) auto
  then show ?thesis by (simp only: rev_rev_ident)
qed

lemma js_split_sep:
  "c \<in> set s \<Longrightarrow>
   \<exists>w ws. js_split c s = w # ws \<and> ws \<noteq> []
      \<and> last ws = rev (takeWhile (\<lambda>x. x \<noteq> c) (rev s))"
proof (induction s)
  case Nil
  then show ?case by simp
next
  case (Cons x xs)
  show ?case
  proof (cases "c \<in> set xs")
    case True
    with Cons.IH obtain w ws where
      sp: "js_split c xs = w # ws" "ws \<noteq> []" "last ws = rev (takeWhile (\<lambda>x. x \<noteq> c) (rev xs))"
      by blast
    from True have tw: "takeWhile (\<lambda>x. x \<noteq> c) (rev xs @ [x]) = takeWhile (\<lambda>x. x \<noteq> c) (rev xs)"
      by (simp add: takeWhile_append1 [where x = c])
    show ?thesis using sp tw by (cases "x = c") auto
  next
    case False
    with Cons.prems have xc: "x = c" by simp
    from False have "js_split c xs = [xs]" by (rule js_split_no_sep)
    moreover note after_last_none [OF False]
    ultimately show ?thesis using xc by (simp add: takeWhile_snoc_stop del: takeWhile_eq_all_conv)
  qed
qed

lemma last_js_split: "last (js_split c s) = rev (takeWhile (\<lambda>x. x \<noteq> c) (rev s))"
proof (cases "c \<in> set s")
  case True
  from js_split_sep [OF this] show ?thesis by auto
next
  case False
  from js_split_no_sep [OF this] after_last_none [OF this] show ?thesis
    by (simp del: takeWhile_eq_all_conv)
qed

lemma leaf_dot_suffix:
  assumes "CHR ''.'' \<in> set (leaf_name p)"
  shows "rev (takeWhile (\<lambda>x. x \<noteq> CHR ''.'') (rev p))
         = rev (takeWhile (\<lambda>x. x \<noteq> CHR ''.'') (rev (leaf_name p)))"
proof -
  let ?l = "takeWhile (\<lambda>x. x \<noteq> CHR ''/'') (rev p)"
  have leaf: "leaf_name p = rev ?l" by (simp add: leaf_name_def last_js_split)
  with assms have dot: "CHR ''.'' \<in> set ?l" by simp
  have "takeWhile (\<lambda>x. x \<noteq> CHR ''.'') (?l @ dropWhile (\<lambda>x. x \<noteq> CHR ''/'') (rev p))
          = takeWhile (\<lambda>x. x \<noteq> CHR ''.'') ?l"
    by (rule takeWhile_append1 [OF dot]) simp
  then have "takeWhile (\<lambda>x. x \<noteq> CHR ''.'') (rev p) = takeWhile (\<lambda>x. x \<noteq> CHR ''.'') ?l"
    by simp
  then show ?thesis by (simp add: leaf)
qed

lemma split_pop_ext_leaf:
  "CHR ''.'' \<in> set (leaf_name p) \<Longrightarrow>
   split_pop_ext p = (if spec_extension p = [] then ''txt'' else spec_extension p)"
  by (simp add: split_pop_ext_def spec_extension_def last_js_split leaf_dot_suffix Let_def)













section \<open>Renaming there and back\<close>


















end
